theory Spec2Isabelle
  imports Complex_Main "HOL-Library.Sublist"
begin

section \<open>Python values, exceptions and text\<close>

text \<open>
  The import endpoint keeps the raw JSON values of the request: \<open>validate_product\<close>
  returns the dictionary it was given, so the view tests and converts what the client
  sent, not what the field classes made of it. A price or a compare-at price is therefore
  a Python value: \<open>None\<close>, an integer or a string. (JSON numbers with a fraction become
  Python floats; they are left out of the model.)
\<close>

datatype pyval = PyNone | PyInt int | PyStr string

fun truthy :: "pyval \<Rightarrow> bool" where
  "truthy PyNone = False"
| "truthy (PyInt n) = (n \<noteq> 0)"
| "truthy (PyStr s) = (s \<noteq> [])"

datatype exn =
    KeyError
  | ValueError
  | InvalidOperation
  | DoesNotExist
  | MultipleObjectsReturned
  | IntegrityError

definition bind_exn :: "exn + 'a \<Rightarrow> ('a \<Rightarrow> exn + 'b) \<Rightarrow> exn + 'b" where
  "bind_exn m f = (case m of Inl e \<Rightarrow> Inl e | Inr x \<Rightarrow> f x)"

text \<open>\<open>d[key]\<close> on a dictionary: a missing key raises \<open>KeyError\<close>.\<close>

definition getitem :: "'a option \<Rightarrow> exn + 'a" where
  "getitem v = (case v of None \<Rightarrow> Inl KeyError | Some x \<Rightarrow> Inr x)"

text \<open>\<open>d.get(key, default)\<close>.\<close>

definition dict_get :: "'a option \<Rightarrow> 'a \<Rightarrow> 'a" where
  "dict_get v dflt = (case v of None \<Rightarrow> dflt | Some x \<Rightarrow> x)"

text \<open>The ASCII characters that \<open>str.strip()\<close> removes.\<close>

definition isspace :: "char \<Rightarrow> bool" where
  "isspace c \<longleftrightarrow>
     c \<in> set [CHR '' '', CHR 0x09, CHR 0x0A, CHR 0x0B, CHR 0x0C, CHR 0x0D,
                CHR 0x1C, CHR 0x1D, CHR 0x1E, CHR 0x1F]"

definition strip :: "string \<Rightarrow> string" where
  "strip s = rev (dropWhile isspace (rev (dropWhile isspace s)))"

definition isdigit :: "char \<Rightarrow> bool" where
  "isdigit c \<longleftrightarrow> c \<in> set ''0123456789''"

definition digit_value :: "char \<Rightarrow> nat" where
  "digit_value c = of_char c - 48"

definition digits_value :: "string \<Rightarrow> nat" where
  "digits_value s = foldl (\<lambda>n c. 10 * n + digit_value c) 0 s"






section \<open>Decimals\<close>

text \<open>
  A finite \<open>decimal.Decimal\<close>, as \<open>as_tuple()\<close> shows it: the sign, the digits read as a
  number, and the count of digits after the point. \<open>Decimal False 7999 2\<close> is \<open>79.99\<close>.
\<close>

datatype decimal = Decimal (negative: bool) (digits: nat) (places: nat)

definition value_of :: "decimal \<Rightarrow> rat" where
  "value_of d = (if negative d then - 1 else 1) * of_nat (digits d) / 10 ^ places d"

text \<open>
  The text forms \<open>Decimal(...)\<close> reads here are the plain ones: blanks around, an optional
  sign, digits with an optional point. Python also reads exponents, underscores and the
  special values; texts of those forms are outside the inputs this development covers
  (\<open>parse_decimal\<close> reads them as no number).
\<close>

definition parse_decimal :: "string \<Rightarrow> decimal option" where
  "parse_decimal s =
     (let t = strip s;
          neg = (t \<noteq> [] \<and> hd t = CHR ''-'');
          u = (if t \<noteq> [] \<and> (hd t = CHR ''-'' \<or> hd t = CHR ''+'') then tl t else t);
          ip = takeWhile (\<lambda>c. c \<noteq> CHR ''.'') u;
          fp = (case dropWhile (\<lambda>c. c \<noteq> CHR ''.'') u of [] \<Rightarrow> [] | _ # f \<Rightarrow> f)
      in if ip @ fp \<noteq> [] \<and> list_all isdigit (ip @ fp)
         then Some (Decimal neg (digits_value (ip @ fp)) (length fp))
         else None)"

text \<open>\<open>Decimal(str(x))\<close> for a raw payload value, when it is a finite number.\<close>

fun to_decimal :: "pyval \<Rightarrow> decimal option" where
  "to_decimal PyNone = None"
| "to_decimal (PyInt n) = Some (Decimal (n < 0) (nat \<bar>n\<bar>) 0)"
| "to_decimal (PyStr s) = parse_decimal s"

text \<open>The view's \<open>Decimal(str(x))\<close>: it raises where the text is no number.\<close>

definition Decimal_str :: "pyval \<Rightarrow> exn + rat" where
  "Decimal_str x = (case to_decimal x of None \<Rightarrow> Inl InvalidOperation | Some d \<Rightarrow> Inr (value_of d))"

fun ndigits :: "nat \<Rightarrow> nat" where
  "ndigits n = (if n < 10 then 1 else Suc (ndigits (n div 10)))"

declare ndigits.simps [simp del]

text \<open>
  The digit bounds of \<open>DecimalField(max_digits=10, decimal_places=2)\<close>: at most ten digits
  in all, two after the point, eight before it.
\<close>

definition max_digits :: nat where "max_digits = 10"
definition decimal_places :: nat where "decimal_places = 2"

definition validate_precision :: "decimal \<Rightarrow> bool" where
  "validate_precision d =
     (let nd = ndigits (digits d);
          p = places d;
          total_digits = (if p = 0 then nd else if nd > p then nd else p);
          whole_digits = (if p = 0 then nd else if nd > p then nd - p else 0)
      in total_digits \<le> max_digits \<and> p \<le> decimal_places
         \<and> whole_digits \<le> max_digits - decimal_places)"

text \<open>The length guard of the decimal field on the text it is given.\<close>

definition within_max_string_length :: "pyval \<Rightarrow> bool" where
  "within_max_string_length x = (case x of PyStr s \<Rightarrow> length (strip s) \<le> 1000 | _ \<Rightarrow> True)"

definition decimal_field_ok :: "pyval \<Rightarrow> bool" where
  "decimal_field_ok x =
     (within_max_string_length x \<and>
      (case to_decimal x of None \<Rightarrow> False | Some d \<Rightarrow> validate_precision d))"

text \<open>A decimal field that allows null reads a blank text as null.\<close>

definition blank_text :: "pyval \<Rightarrow> bool" where
  "blank_text x = (case x of PyStr s \<Rightarrow> strip s = [] | _ \<Rightarrow> False)"


section \<open>The catalog store\<close>

text \<open>
  Each table is the list of its rows in insertion order, every row paired with its
  primary key. Columns no operation reads (e-mail, status, timestamps) are left out, and
  so are the order tables.
\<close>

record merchant =
  m_name :: string
  m_store_url :: string

record product =
  p_merchant_id :: int
  p_external_id :: string
  p_title :: string
  p_description :: string
  p_product_type :: string
  p_active :: bool
  p_base_price :: rat

record variant =
  v_product_id :: int
  v_external_id :: string
  v_name :: string
  v_sku :: string
  v_price :: rat
  v_retail_price :: rat
  v_quantity :: int
  v_active :: bool

record db =
  merchants :: "(int \<times> merchant) list"
  products :: "(int \<times> product) list"
  variants :: "(int \<times> variant) list"
  next_product_id :: int
  next_variant_id :: int

text \<open>\<open>objects.get(...)\<close>: exactly one row must match.\<close>

definition objects_get :: "('a \<Rightarrow> bool) \<Rightarrow> 'a list \<Rightarrow> exn + 'a" where
  "objects_get P rows =
     (case filter P rows of
        [] \<Rightarrow> Inl DoesNotExist
      | [r] \<Rightarrow> Inr r
      | _ \<Rightarrow> Inl MultipleObjectsReturned)"

text \<open>\<open>instance.save()\<close> of a stored product: the row with its primary key is rewritten.\<close>

definition save_product :: "db \<Rightarrow> int \<times> product \<Rightarrow> db" where
  "save_product s inst =
     s\<lparr>products := map (\<lambda>row. if fst row = fst inst then inst else row) (products s)\<rparr>"

text \<open>
  \<open>get_or_create\<close> on (merchant, external id). The row is created only after the lookup
  found none, so the insert cannot meet the uniqueness constraint.
\<close>

definition get_or_create_product ::
  "db \<Rightarrow> int \<Rightarrow> string \<Rightarrow> string \<Rightarrow> string \<Rightarrow> string \<Rightarrow> exn + ((int \<times> product) \<times> bool \<times> db)" where
  "get_or_create_product s mid ext title descr ptype =
     (case objects_get (\<lambda>row. p_merchant_id (snd row) = mid \<and> p_external_id (snd row) = ext)
             (products s) of
        Inr row \<Rightarrow> Inr (row, False, s)
      | Inl DoesNotExist \<Rightarrow>
          (let row = (next_product_id s,
                      \<lparr>p_merchant_id = mid, p_external_id = ext, p_title = title,
                       p_description = descr, p_product_type = ptype, p_active = True,
                       p_base_price = 0\<rparr>)
           in Inr (row, True,
                   s\<lparr>products := products s @ [row], next_product_id := next_product_id s + 1\<rparr>))
      | Inl e \<Rightarrow> Inl e)"

definition variant_key :: "variant \<Rightarrow> int \<times> string" where
  "variant_key v = (v_product_id v, v_external_id v)"

text \<open>
  \<open>bulk_create\<close>: the rows are inserted in order; a row whose (product, external id) is
  already in the table violates \<open>unique_together\<close>.
\<close>

fun bulk_create :: "db \<Rightarrow> variant list \<Rightarrow> exn + db" where
  "bulk_create s [] = Inr s"
| "bulk_create s (v # vs) =
     (if variant_key v \<in> set (map (variant_key \<circ> snd) (variants s)) then Inl IntegrityError
      else bulk_create
             (s\<lparr>variants := variants s @ [(next_variant_id s, v)],
                next_variant_id := next_variant_id s + 1\<rparr>) vs)"


section \<open>Responses\<close>

record product_summary =
  s_id :: int
  s_title :: string
  s_base_price :: rat
  s_active :: bool
  s_image_url :: "string option"

record product_detail =
  d_id :: int
  d_external_id :: string
  d_title :: string
  d_description :: string
  d_product_type :: string
  d_active :: bool
  d_base_price :: rat
  d_merchant_name :: string
  d_image_url :: "string option"
  d_variants :: "(int \<times> variant) list"

record page =
  pg_count :: nat
  pg_next :: "nat option"
  pg_previous :: "nat option"
  pg_results :: "product_summary list"

datatype store_url_error = Required_store_url | Blank_store_url | No_merchant_found

datatype vfield = F_id | F_title | F_price | F_compare_at_price | F_inventory_quantity

datatype product_error =
    Required_product
  | Must_have_id
  | Must_have_title
  | Must_have_variants
  | Variant_errors "vfield list list"

datatype field_error = Store_url store_url_error | Product product_error

datatype bulk_error = Required_product_ids | Empty_product_ids | Required_active


datatype body =
    Validation_errors "field_error list"
  | Merchant_id_required
  | Merchant_does_not_exist int
  | Merchant_not_found string
  | Database_integrity_error
  | Error_occurred exn
  | Not_found
  | Server_error
  | Detail product_detail
  | Page page
  | Bulk_updated nat bool
  | Bulk_errors "bulk_error list"

datatype response = Response (status: nat) (body: body)


definition ProductDetailSerializer :: "db \<Rightarrow> string \<Rightarrow> int \<times> product \<Rightarrow> product_detail" where
  "ProductDetailSerializer s merchant_name row =
     \<lparr>d_id = fst row, d_external_id = p_external_id (snd row), d_title = p_title (snd row),
      d_description = p_description (snd row), d_product_type = p_product_type (snd row),
      d_active = p_active (snd row), d_base_price = p_base_price (snd row),
      d_merchant_name = merchant_name, d_image_url = None,
      d_variants = filter (\<lambda>v. v_product_id (snd v) = fst row) (variants s)\<rparr>"


section \<open>Import: the request and its validation\<close>

text \<open>
  A dictionary of the request is a record of optional entries: \<open>None\<close> is a missing key.
  \<open>pd_variants\<close> is \<open>None\<close> also when the entry is no list.
\<close>

record variant_data =
  vd_id :: "string option"
  vd_title :: "string option"
  vd_sku :: "string option"
  vd_price :: "pyval option"
  vd_compare_at_price :: "pyval option"
  vd_inventory_quantity :: "int option"

record product_data =
  pd_id :: "string option"
  pd_title :: "string option"
  pd_description :: "string option"
  pd_product_type :: "string option"
  pd_variants :: "variant_data list option"

record import_request =
  ir_store_url :: "string option"
  ir_product :: "product_data option"

text \<open>
  \<open>ImportVariantSerializer\<close>: the fields of one variant that fail their declaration.
  \<open>id\<close> and \<open>title\<close> are required and not blank, \<open>sku\<close> is free, \<open>price\<close> is a required
  decimal, \<open>compare_at_price\<close> may be missing, null or blank, \<open>inventory_quantity\<close> is a
  required integer from 0 up.
\<close>

definition required_text_ok :: "string option \<Rightarrow> bool" where
  "required_text_ok v = (case v of None \<Rightarrow> False | Some s \<Rightarrow> strip s \<noteq> [])"

definition price_ok :: "pyval option \<Rightarrow> bool" where
  "price_ok v = (case v of None \<Rightarrow> False | Some x \<Rightarrow> decimal_field_ok x)"

definition compare_at_price_ok :: "pyval option \<Rightarrow> bool" where
  "compare_at_price_ok v =
     (case v of None \<Rightarrow> True | Some x \<Rightarrow> x = PyNone \<or> blank_text x \<or> decimal_field_ok x)"

definition inventory_quantity_ok :: "int option \<Rightarrow> bool" where
  "inventory_quantity_ok v = (case v of None \<Rightarrow> False | Some n \<Rightarrow> 0 \<le> n)"

definition variant_field_errors :: "variant_data \<Rightarrow> vfield list" where
  "variant_field_errors vd =
     (if required_text_ok (vd_id vd) then [] else [F_id]) @
     (if required_text_ok (vd_title vd) then [] else [F_title]) @
     (if price_ok (vd_price vd) then [] else [F_price]) @
     (if compare_at_price_ok (vd_compare_at_price vd) then [] else [F_compare_at_price]) @
     (if inventory_quantity_ok (vd_inventory_quantity vd) then [] else [F_inventory_quantity])"

text \<open>
  \<open>validate_product\<close>: the keys \<open>id\<close>, \<open>title\<close> and \<open>variants\<close> must be there, and every
  variant must pass. An empty list of variants passes. The value is returned as it came.
\<close>

definition validate_product :: "product_data \<Rightarrow> product_error + product_data" where
  "validate_product val =
     (if pd_id val = None then Inl Must_have_id
      else if pd_title val = None then Inl Must_have_title
      else case pd_variants val of
             None \<Rightarrow> Inl Must_have_variants
           | Some vds \<Rightarrow>
               (let errors = map variant_field_errors vds
                in if list_all (\<lambda>e. e = []) errors then Inr val else Inl (Variant_errors errors)))"

text \<open>
  \<open>validate_store_url\<close>: only \<open>DoesNotExist\<close> is turned into a validation error; any other
  exception of the lookup leaves the serializer.
\<close>

definition validate_store_url :: "db \<Rightarrow> string \<Rightarrow> exn + (store_url_error + string)" where
  "validate_store_url s val =
     (case objects_get (\<lambda>row. m_store_url (snd row) = val) (merchants s) of
        Inr _ \<Rightarrow> Inr (Inr val)
      | Inl DoesNotExist \<Rightarrow> Inr (Inl No_merchant_found)
      | Inl e \<Rightarrow> Inl e)"

text \<open>The character field \<open>store_url\<close>: required, not blank, blanks around it trimmed.\<close>

definition store_url_field :: "db \<Rightarrow> string option \<Rightarrow> exn + (store_url_error + string)" where
  "store_url_field s v =
     (case v of
        None \<Rightarrow> Inr (Inl Required_store_url)
      | Some u \<Rightarrow> if strip u = [] then Inr (Inl Blank_store_url) else validate_store_url s (strip u))"

definition product_field :: "product_data option \<Rightarrow> product_error + product_data" where
  "product_field v = (case v of None \<Rightarrow> Inl Required_product | Some val \<Rightarrow> validate_product val)"

text \<open>
  \<open>ImportProductSerializer.is_valid\<close>: both fields are checked, \<open>store_url\<close> first, and the
  errors of both are reported. The result is the validated data or the errors.
\<close>

definition is_valid :: "db \<Rightarrow> import_request \<Rightarrow> exn + (field_error list + string \<times> product_data)" where
  "is_valid s req =
     bind_exn (store_url_field s (ir_store_url req)) (\<lambda>su.
       Inr (case (su, product_field (ir_product req)) of
              (Inr u, Inr val) \<Rightarrow> Inr (u, val)
            | (su', pf) \<Rightarrow>
                Inl ((case su' of Inl e \<Rightarrow> [Store_url e] | Inr _ \<Rightarrow> []) @
                     (case pf of Inl e \<Rightarrow> [Product e] | Inr _ \<Rightarrow> []))))"


section \<open>Import: the view\<close>

text \<open>The loop that prepares the variants to create; \<open>existing\<close> are the stored external ids.\<close>

fun build_variants :: "int \<Rightarrow> string list \<Rightarrow> variant_data list \<Rightarrow> exn + variant list" where
  "build_variants pid existing [] = Inr []"
| "build_variants pid existing (vd # vds) =
     bind_exn (getitem (vd_id vd)) (\<lambda>vid.
       if vid \<in> set existing then build_variants pid existing vds
       else
         bind_exn (getitem (vd_price vd)) (\<lambda>raw_price.
         bind_exn (Decimal_str raw_price) (\<lambda>price.
         bind_exn (case vd_compare_at_price vd of
                     None \<Rightarrow> Inr price
                   | Some c \<Rightarrow> if truthy c then Decimal_str c else Inr price) (\<lambda>retail_price.
         bind_exn (getitem (vd_title vd)) (\<lambda>title.
         bind_exn (getitem (vd_inventory_quantity vd)) (\<lambda>quantity.
         bind_exn (build_variants pid existing vds) (\<lambda>rest.
           Inr (\<lparr>v_product_id = pid, v_external_id = vid, v_name = title,
                 v_sku = dict_get (vd_sku vd) [], v_price = price,
                 v_retail_price = retail_price, v_quantity = quantity, v_active = True\<rparr>
                # rest))))))))"

text \<open>\<open>Decimal(str(v['price'])) for v in product_data['variants']\<close>.\<close>

fun payload_prices :: "variant_data list \<Rightarrow> exn + rat list" where
  "payload_prices [] = Inr []"
| "payload_prices (vd # vds) =
     bind_exn (getitem (vd_price vd)) (\<lambda>raw_price.
     bind_exn (Decimal_str raw_price) (\<lambda>price.
     bind_exn (payload_prices vds) (\<lambda>rest. Inr (price # rest))))"

text \<open>\<open>min(...)\<close>: an empty sequence raises \<open>ValueError\<close>.\<close>

definition py_min :: "rat list \<Rightarrow> exn + rat" where
  "py_min xs = (case xs of [] \<Rightarrow> Inl ValueError | x # rest \<Rightarrow> Inr (foldl min x rest))"

text \<open>
  The body of \<open>with transaction.atomic()\<close>. It returns the response and the new store, or
  the exception that leaves the block; the caller then keeps the store it had, which is
  the rollback.
\<close>

definition import_atomic :: "db \<Rightarrow> int \<times> merchant \<Rightarrow> product_data \<Rightarrow> exn + response \<times> db" where
  "import_atomic s merchant product_data =
     bind_exn (getitem (pd_id product_data)) (\<lambda>ext.
     bind_exn (getitem (pd_title product_data)) (\<lambda>title.
     bind_exn (get_or_create_product s (fst merchant) ext title
                 (dict_get (pd_description product_data) [])
                 (dict_get (pd_product_type product_data) [])) (\<lambda>(found, created, s1).
       let product = (if created then found
                      else (fst found,
                            (snd found)\<lparr>p_title := title,
                              p_description := dict_get (pd_description product_data) [],
                              p_product_type := dict_get (pd_product_type product_data) []\<rparr>));
           s2 = (if created then s1 else save_product s1 product);
           existing_variant_ids =
             map (v_external_id \<circ> snd)
               (filter (\<lambda>v. v_product_id (snd v) = fst product) (variants s2))
       in
     bind_exn (getitem (pd_variants product_data)) (\<lambda>vds.
     bind_exn (build_variants (fst product) existing_variant_ids vds) (\<lambda>variants_to_create.
     bind_exn (if variants_to_create \<noteq> [] then bulk_create s2 variants_to_create else Inr s2)
       (\<lambda>s3.
     bind_exn (payload_prices vds) (\<lambda>prices.
     bind_exn (py_min prices) (\<lambda>min_price.
       let product' = (fst product, (snd product)\<lparr>p_base_price := min_price\<rparr>);
           s4 = save_product s3 product'
       in Inr (Response (if created then 201 else 200)
                 (Detail (ProductDetailSerializer s4 (m_name (snd merchant)) product')),
               s4)))))))))"

text \<open>
  \<open>import_product\<close>. An exception out of \<open>is_valid\<close> is outside the \<open>try\<close> and becomes the
  server's plain 500 response. Inside the \<open>try\<close>, the merchant is looked up again and the
  three \<open>except\<close> clauses choose the response; the store is the one before the call.
\<close>

definition import_product :: "db \<Rightarrow> import_request \<Rightarrow> response \<times> db" where
  "import_product s req =
     (case is_valid s req of
        Inl e \<Rightarrow> (Response 500 Server_error, s)
      | Inr (Inl errors) \<Rightarrow> (Response 400 (Validation_errors errors), s)
      | Inr (Inr (store_url, product_data)) \<Rightarrow>
          (case bind_exn (objects_get (\<lambda>row. m_store_url (snd row) = store_url) (merchants s))
                  (\<lambda>merchant. import_atomic s merchant product_data) of
             Inr (resp, s') \<Rightarrow> (resp, s')
           | Inl DoesNotExist \<Rightarrow> (Response 404 (Merchant_not_found store_url), s)
           | Inl IntegrityError \<Rightarrow> (Response 400 Database_integrity_error, s)
           | Inl e \<Rightarrow> (Response 500 (Error_occurred e), s)))"


section \<open>Listing and detail\<close>

text \<open>
  The query parameters, read as far as the view reads them. \<open>merchant_id\<close> is \<open>None\<close>
  when the parameter is missing or empty, else the integer it denotes (a text that denotes
  none is not modelled). \<open>page_size\<close> is \<open>None\<close> when missing or no integer: the paginator
  treats both alike. \<open>page\<close> is missing or empty, the word \<open>last\<close>, an integer, or
  any other text.
\<close>

datatype page_param = No_page | Last_page | Page_number int | Not_a_number

record query_params =
  qp_merchant_id :: "int option"
  qp_active :: "string option"
  qp_search :: "string option"
  qp_page :: page_param
  qp_page_size :: "int option"















section \<open>Bulk activation\<close>

record bulk_request =
  br_product_ids :: "int list option"
  br_active :: "bool option"




section \<open>The constraints of the schema\<close>



section \<open>A small store and some requests\<close>

text \<open>
  The store after the end-to-end scenario of the specification (merchant \<open>s1\<close>, product
  \<open>P1\<close> with the variants \<open>V1\<close> and \<open>V2\<close>), with a second product and a second merchant
  that owns nothing.
\<close>

definition stored_v1 :: variant where
  "stored_v1 = \<lparr>v_product_id = 1, v_external_id = ''V1'', v_name = ''One'', v_sku = [],
                 v_price = 10, v_retail_price = 10, v_quantity = 5, v_active = True\<rparr>"

definition stored_v2 :: variant where
  "stored_v2 = \<lparr>v_product_id = 1, v_external_id = ''V2'', v_name = ''Two'', v_sku = [],
                 v_price = 8, v_retail_price = 12, v_quantity = 3, v_active = True\<rparr>"

definition widget :: product where
  "widget = \<lparr>p_merchant_id = 1, p_external_id = ''P1'', p_title = ''Widget'',
              p_description = [], p_product_type = [], p_active = True, p_base_price = 8\<rparr>"

definition gadget :: product where
  "gadget = \<lparr>p_merchant_id = 1, p_external_id = ''P2'', p_title = ''Gadget'',
              p_description = [], p_product_type = [], p_active = True, p_base_price = 0\<rparr>"

definition example_db :: db where
  "example_db =
     \<lparr>merchants = [(1, \<lparr>m_name = ''Tech Store'', m_store_url = ''s1''\<rparr>),
                   (2, \<lparr>m_name = ''Fashion Boutique'', m_store_url = ''s2''\<rparr>)],
      products = [(1, widget), (2, gadget)],
      variants = [(1, stored_v1), (2, stored_v2)],
      next_product_id = 3, next_variant_id = 3\<rparr>"

definition payload_variant :: "string \<Rightarrow> string \<Rightarrow> pyval \<Rightarrow> pyval option \<Rightarrow> int \<Rightarrow> variant_data" where
  "payload_variant vid title price compare_at quantity =
     \<lparr>vd_id = Some vid, vd_title = Some title, vd_sku = None, vd_price = Some price,
      vd_compare_at_price = compare_at, vd_inventory_quantity = Some quantity\<rparr>"

definition payload :: "string \<Rightarrow> variant_data list \<Rightarrow> import_request" where
  "payload store vds =
     \<lparr>ir_store_url = Some store,
      ir_product = Some \<lparr>pd_id = Some ''P1'', pd_title = Some ''Widget'', pd_description = None,
                         pd_product_type = None, pd_variants = Some vds\<rparr>\<rparr>"

text \<open>\<open>V1\<close> again, with another name, price and quantity: every variant of it is stored.\<close>

definition reprice_request :: import_request where
  "reprice_request =
     payload ''s1'' [payload_variant ''V1'' ''Renamed'' (PyStr ''25.00'') (Some (PyStr ''30.00'')) 99]"

text \<open>\<open>V1\<close> changed, and two variants that are new.\<close>

definition mixed_request :: import_request where
  "mixed_request =
     payload ''s1''
       [payload_variant ''V1'' ''Renamed'' (PyStr ''25.00'') None 99,
        payload_variant ''V3'' ''Three'' (PyStr ''9.50'') (Some (PyStr ''11.00'')) 1,
        payload_variant ''V4'' ''Four'' (PyInt 7) (Some PyNone) 0]"

text \<open>A new variant whose compare-at price is the text \<open>0.00\<close>.\<close>

definition zero_compare_variant :: variant_data where
  "zero_compare_variant = payload_variant ''V3'' ''Three'' (PyStr ''10.00'') (Some (PyStr ''0.00'')) 3"

definition zero_compare_request :: import_request where
  "zero_compare_request = payload ''s1'' [zero_compare_variant]"

definition unknown_store_request :: import_request where
  "unknown_store_request =
     payload ''nonexistent-store'' [payload_variant ''V9'' ''Nine'' (PyStr ''10.00'') None 1]"

definition empty_variants_request :: import_request where
  "empty_variants_request = payload ''s1'' []"

text \<open>The new external id \<open>V3\<close> twice.\<close>

definition duplicate_request :: import_request where
  "duplicate_request =
     payload ''s1''
       [payload_variant ''V3'' ''Three'' (PyStr ''9.50'') None 1,
        payload_variant ''V3'' ''Three again'' (PyStr ''9.00'') None 2]"

definition list_request :: "int option \<Rightarrow> page_param \<Rightarrow> query_params" where
  "list_request mid p =
     \<lparr>qp_merchant_id = mid, qp_active = None, qp_search = None, qp_page = p,
      qp_page_size = None\<rparr>"

definition bulk_example :: bulk_request where
  "bulk_example = \<lparr>br_product_ids = Some [1, 2, 999], br_active = Some False\<rparr>"

text \<open>
  The store and the detail after \<open>reprice_request\<close>: the base price is the 25.00 of the
  request, while the stored variants cost 10 and 8.
\<close>

definition repriced_db :: db where
  "repriced_db = example_db\<lparr>products := [(1, widget\<lparr>p_base_price := 25\<rparr>), (2, gadget)]\<rparr>"

definition repriced_detail :: product_detail where
  "repriced_detail =
     \<lparr>d_id = 1, d_external_id = ''P1'', d_title = ''Widget'', d_description = [],
      d_product_type = [], d_active = True, d_base_price = 25, d_merchant_name = ''Tech Store'',
      d_image_url = None, d_variants = [(1, stored_v1), (2, stored_v2)]\<rparr>"

text \<open>The rows that \<open>mixed_request\<close> and \<open>zero_compare_request\<close> insert.\<close>

definition inserted_v3 :: variant where
  "inserted_v3 = \<lparr>v_product_id = 1, v_external_id = ''V3'', v_name = ''Three'', v_sku = [],
                   v_price = 19 / 2, v_retail_price = 11, v_quantity = 1, v_active = True\<rparr>"

definition inserted_v4 :: variant where
  "inserted_v4 = \<lparr>v_product_id = 1, v_external_id = ''V4'', v_name = ''Four'', v_sku = [],
                   v_price = 7, v_retail_price = 7, v_quantity = 0, v_active = True\<rparr>"

definition zero_compare_stored :: variant where
  "zero_compare_stored =
     \<lparr>v_product_id = 1, v_external_id = ''V3'', v_name = ''Three'', v_sku = [],
      v_price = 10, v_retail_price = 0, v_quantity = 3, v_active = True\<rparr>"

text \<open>The store and the detail after \<open>mixed_request\<close>.\<close>

definition mixed_db :: db where
  "mixed_db =
     example_db\<lparr>products := [(1, widget\<lparr>p_base_price := 7\<rparr>), (2, gadget)],
                 variants := [(1, stored_v1), (2, stored_v2), (3, inserted_v3), (4, inserted_v4)],
                 next_variant_id := 5\<rparr>"

definition mixed_detail :: product_detail where
  "mixed_detail =
     \<lparr>d_id = 1, d_external_id = ''P1'', d_title = ''Widget'', d_description = [],
      d_product_type = [], d_active = True, d_base_price = 7, d_merchant_name = ''Tech Store'',
      d_image_url = None,
      d_variants = [(1, stored_v1), (2, stored_v2), (3, inserted_v3), (4, inserted_v4)]\<rparr>"

text \<open>The detail and the summaries of the example products.\<close>

definition widget_detail :: product_detail where
  "widget_detail =
     \<lparr>d_id = 1, d_external_id = ''P1'', d_title = ''Widget'', d_description = [],
      d_product_type = [], d_active = True, d_base_price = 8, d_merchant_name = ''Tech Store'',
      d_image_url = None, d_variants = [(1, stored_v1), (2, stored_v2)]\<rparr>"

definition gadget_summary :: product_summary where
  "gadget_summary = \<lparr>s_id = 2, s_title = ''Gadget'', s_base_price = 0, s_active = True,
                      s_image_url = None\<rparr>"

definition no_filter :: query_params where
  "no_filter = list_request None No_page"


section \<open>Evaluation\<close>

lemmas decimal_defs =
  decimal_field_ok_def within_max_string_length_def parse_decimal_def strip_def isspace_def
  isdigit_def digits_value_def digit_value_def validate_precision_def max_digits_def
  decimal_places_def ndigits.simps Decimal_str_def value_of_def blank_text_def Let_def

lemmas import_defs =
  import_product_def is_valid_def store_url_field_def validate_store_url_def product_field_def
  validate_product_def variant_field_errors_def required_text_ok_def price_ok_def
  compare_at_price_ok_def inventory_quantity_ok_def objects_get_def bind_exn_def getitem_def
  dict_get_def import_atomic_def get_or_create_product_def save_product_def py_min_def
  variant_key_def ProductDetailSerializer_def


lemmas example_defs =
  example_db_def widget_def gadget_def stored_v1_def stored_v2_def payload_def
  payload_variant_def reprice_request_def mixed_request_def zero_compare_variant_def
  zero_compare_request_def unknown_store_request_def empty_variants_request_def
  duplicate_request_def list_request_def bulk_example_def repriced_db_def repriced_detail_def
  inserted_v3_def inserted_v4_def zero_compare_stored_def mixed_db_def mixed_detail_def
  widget_detail_def gadget_summary_def no_filter_def


section \<open>Steps of the import\<close>

lemma bind_exn_Inr: "bind_exn m f = Inr y \<longleftrightarrow> (\<exists>x. m = Inr x \<and> f x = Inr y)"
  by (cases m) (simp_all add: bind_exn_def)

lemma getitem_Inr: "getitem v = Inr x \<longleftrightarrow> v = Some x"
  by (cases v) (simp_all add: getitem_def)

lemma objects_get_Inr: "objects_get P rows = Inr r \<Longrightarrow> filter P rows = [r]"
  by (auto simp: objects_get_def split: list.splits)

lemma objects_get_mem: "objects_get P rows = Inr r \<Longrightarrow> r \<in> set rows \<and> P r"
proof -
  assume "objects_get P rows = Inr r"
  then have "filter P rows = [r]" by (rule objects_get_Inr)
  then have "r \<in> set (filter P rows)" by simp
  then show ?thesis by simp
qed





lemma save_product_frame:
  "variants (save_product s inst) = variants s" "merchants (save_product s inst) = merchants s"
  by (simp_all add: save_product_def)



lemma get_or_create_product_Inr:
  "get_or_create_product s mid ext title descr ptype = Inr (row, created, s1) \<Longrightarrow>
     row \<in> set (products s1) \<and> variants s1 = variants s \<and> merchants s1 = merchants s
     \<and> p_external_id (snd row) = ext \<and> p_merchant_id (snd row) = mid"
  by (auto simp: get_or_create_product_def Let_def split: sum.splits exn.splits
      dest: objects_get_mem)






section \<open>Import: the derived base price\<close>





section \<open>Import: what happens to the variants\<close>

text \<open>The batch insert appends its rows, each with a (product, external id) not yet stored.\<close>

lemma bulk_create_rows:
  "bulk_create s vs = Inr s' \<Longrightarrow>
     (\<exists>ks. length ks = length vs \<and> variants s' = variants s @ zip ks vs) \<and>
     (\<forall>v \<in> set vs. variant_key v \<notin> set (map (variant_key \<circ> snd) (variants s)))"
proof (induction vs arbitrary: s)
  case Nil
  then show ?case by simp
next
  case (Cons v vs)
  let ?t = "s\<lparr>variants := variants s @ [(next_variant_id s, v)],
              next_variant_id := next_variant_id s + 1\<rparr>"
  from Cons.prems have fresh: "variant_key v \<notin> set (map (variant_key \<circ> snd) (variants s))"
    and rec: "bulk_create ?t vs = Inr s'"
    by (simp_all split: if_splits)
  from Cons.IH [OF rec] obtain ks
    where ks: "length ks = length vs" "variants s' = variants ?t @ zip ks vs"
      and rest: "\<forall>w \<in> set vs. variant_key w \<notin> set (map (variant_key \<circ> snd) (variants ?t))"
    by blast
  have "length (next_variant_id s # ks) = length (v # vs)" using ks(1) by simp
  moreover have "variants s' = variants s @ zip (next_variant_id s # ks) (v # vs)"
    using ks(2) by simp
  ultimately have "\<exists>ks. length ks = length (v # vs) \<and> variants s' = variants s @ zip ks (v # vs)"
    by blast
  moreover have "\<forall>w \<in> set (v # vs). variant_key w \<notin> set (map (variant_key \<circ> snd) (variants s))"
    using fresh rest by auto
  ultimately show ?case by blast
qed

lemma import_atomic_variants:
  assumes "import_atomic s m pd = Inr (resp, s')"
  shows "\<exists>vds new s2 s3 st d.
     resp = Response st (Detail d) \<and> pd_variants pd = Some vds \<and> variants s2 = variants s \<and>
     build_variants (d_id d)
       (map (v_external_id \<circ> snd) (filter (\<lambda>v. v_product_id (snd v) = d_id d) (variants s)))
       vds = Inr new \<and>
     bulk_create s2 new = Inr s3 \<and> variants s' = variants s3"
proof -
  from assms obtain ext title found created s1 vds prices min_price
    where goc: "get_or_create_product s (fst m) ext title (dict_get (pd_description pd) [])
                  (dict_get (pd_product_type pd) []) = Inr (found, created, s1)"
      and vds: "pd_variants pd = Some vds"
      and rest: "\<exists>product s2 new s3.
          fst product = fst found \<and>
          (s2 = s1 \<or> s2 = save_product s1 product) \<and>
          build_variants (fst product)
            (map (v_external_id \<circ> snd)
               (filter (\<lambda>v. v_product_id (snd v) = fst product) (variants s2))) vds = Inr new \<and>
          (new = [] \<and> s3 = s2 \<or> bulk_create s2 new = Inr s3) \<and>
          s' = save_product s3 (fst product, (snd product)\<lparr>p_base_price := min_price\<rparr>) \<and>
          resp = Response (if created then 201 else 200)
                   (Detail (ProductDetailSerializer s' (m_name (snd m))
                      (fst product, (snd product)\<lparr>p_base_price := min_price\<rparr>)))"
    unfolding import_atomic_def
    by (fastforce simp: bind_exn_Inr getitem_Inr Let_def split: prod.splits if_splits)
  from rest obtain product s2 new s3
    where p: "fst product = fst found"
      and s2: "s2 = s1 \<or> s2 = save_product s1 product"
      and new: "build_variants (fst product)
            (map (v_external_id \<circ> snd)
               (filter (\<lambda>v. v_product_id (snd v) = fst product) (variants s2))) vds = Inr new"
      and s3: "new = [] \<and> s3 = s2 \<or> bulk_create s2 new = Inr s3"
      and s': "s' = save_product s3 (fst product, (snd product)\<lparr>p_base_price := min_price\<rparr>)"
      and resp: "resp = Response (if created then 201 else 200)
                   (Detail (ProductDetailSerializer s' (m_name (snd m))
                      (fst product, (snd product)\<lparr>p_base_price := min_price\<rparr>)))"
    by blast
  let ?d = "ProductDetailSerializer s' (m_name (snd m))
              (fst product, (snd product)\<lparr>p_base_price := min_price\<rparr>)"
  have d: "d_id ?d = fst product" by (simp add: ProductDetailSerializer_def)
  from get_or_create_product_Inr [OF goc] have "variants s1 = variants s" by simp
  with s2 have v2: "variants s2 = variants s"
    by (auto simp: save_product_frame)
  from s3 have bc: "bulk_create s2 new = Inr s3" by auto
  have v': "variants s' = variants s3" unfolding s' by (simp add: save_product_frame)
  from new v2 d have "build_variants (d_id ?d)
       (map (v_external_id \<circ> snd) (filter (\<lambda>v. v_product_id (snd v) = d_id ?d) (variants s)))
       vds = Inr new" by simp
  with resp vds v2 bc v' show ?thesis by blast
qed

lemma import_product_cases:
  assumes "import_product s req = (resp, s')"
  shows "s' = s \<or> (\<exists>m pd. import_atomic s m pd = Inr (resp, s'))"
  using assms
  by (auto simp: import_product_def bind_exn_def split: sum.splits prod.splits exn.splits)

text \<open>
  Claim C2. Whatever the request, every variant that was stored before the call is still
  stored after it, in its place and with every column as it was (the table before is a
  prefix of the table after), and no row the call adds has the product and external id of
  a row that was there: the import inserts, it never updates.
\<close>

theorem import_product_keeps_stored_variants:
  "prefix (variants s) (variants (snd (import_product s req))) \<and>
   (\<forall>new \<in> set (drop (length (variants s)) (variants (snd (import_product s req)))).
      variant_key (snd new) \<notin> set (map (variant_key \<circ> snd) (variants s)))"
proof -
  obtain resp s' where r: "import_product s req = (resp, s')" by (cases "import_product s req")
  from import_product_cases [OF r] show ?thesis
  proof
    assume "s' = s"
    with r show ?thesis by simp
  next
    assume "\<exists>m pd. import_atomic s m pd = Inr (resp, s')"
    then obtain m pd where "import_atomic s m pd = Inr (resp, s')" by blast
    from import_atomic_variants [OF this] obtain new s2 s3
      where v2: "variants s2 = variants s" and bc: "bulk_create s2 new = Inr s3"
        and v': "variants s' = variants s3"
      by blast
    from bulk_create_rows [OF bc] v2 v' obtain ks
      where ks: "variants s' = variants s @ zip ks new"
        and fresh: "\<forall>v \<in> set new. variant_key v \<notin> set (map (variant_key \<circ> snd) (variants s))"
      by auto
    from ks have "drop (length (variants s)) (variants s') = zip ks new" by simp
    moreover have "\<forall>row \<in> set (zip ks new). snd row \<in> set new"
      by (auto dest: set_zip_rightD)
    ultimately have "\<forall>row \<in> set (drop (length (variants s)) (variants s')).
        variant_key (snd row) \<notin> set (map (variant_key \<circ> snd) (variants s))"
      using fresh by auto
    moreover from ks have "prefix (variants s) (variants s')" by simp
    ultimately show ?thesis using r by simp
  qed
qed

text \<open>
  \<open>mixed_request\<close> names the stored \<open>V1\<close> with another title, price and quantity, and two
  new variants: \<open>V1\<close> and \<open>V2\<close> stay as they were, \<open>V3\<close> and \<open>V4\<close> are added.
\<close>

theorem import_product_keeps_stored_variants_witness:
  "variants (snd (import_product example_db mixed_request))
     = [(1, stored_v1), (2, stored_v2), (3, inserted_v3), (4, inserted_v4)]
   \<and> prefix (variants example_db) (variants (snd (import_product example_db mixed_request)))
   \<and> variant_key inserted_v3 \<notin> set (map (variant_key \<circ> snd) (variants example_db))
   \<and> variant_key inserted_v4 \<notin> set (map (variant_key \<circ> snd) (variants example_db))"
proof -
  have e: "variants (snd (import_product example_db mixed_request))
             = [(1, stored_v1), (2, stored_v2), (3, inserted_v3), (4, inserted_v4)]"
    by (simp add: import_defs decimal_defs example_defs del: set_filter set_map)
  note t = import_product_keeps_stored_variants [of example_db mixed_request]
  from t have p: "prefix (variants example_db)
                    (variants (snd (import_product example_db mixed_request)))"
    by (rule conjunct1)
  have d: "drop (length (variants example_db))
             (variants (snd (import_product example_db mixed_request)))
           = [(3, inserted_v3), (4, inserted_v4)]"
    unfolding e by (simp add: example_db_def)
  from t have "\<forall>new \<in> set (drop (length (variants example_db))
                          (variants (snd (import_product example_db mixed_request)))).
      variant_key (snd new) \<notin> set (map (variant_key \<circ> snd) (variants example_db))"
    by (rule conjunct2)
  then have k: "variant_key inserted_v3 \<notin> set (map (variant_key \<circ> snd) (variants example_db))"
    "variant_key inserted_v4 \<notin> set (map (variant_key \<circ> snd) (variants example_db))"
    unfolding d by simp_all
  from e p k show ?thesis by blast
qed


section \<open>Import: the retail price of a new variant\<close>







section \<open>Import: requests that are turned away\<close>





text \<open>
  Claim C4: the code at a request with an empty list of variants for the known
  merchant \<open>s1\<close>. The serializer accepts it; inside the transaction \<open>min\<close> of no prices
  raises \<open>ValueError\<close>, the transaction is rolled back, and the response is 500, not 400.
\<close>

theorem empty_variants_internal_error:
  "is_valid example_db empty_variants_request
     = Inr (Inr (''s1'', \<lparr>pd_id = Some ''P1'', pd_title = Some ''Widget'', pd_description = None,
                          pd_product_type = None, pd_variants = Some []\<rparr>))
   \<and> import_product example_db empty_variants_request
       = (Response 500 (Error_occurred ValueError), example_db)"
  by (simp add: import_defs decimal_defs example_defs del: set_filter set_map)


section \<open>Bulk activation\<close>





section \<open>Listing and detail: the query set\<close>






section \<open>Detail\<close>





section \<open>Listing\<close>













section \<open>Import: the same new variant twice\<close>












end
